theory Spec2Isabelle
  imports Complex_Main "HOL-Library.Multiset"
begin

section \<open>Python values: exceptions, strings, lists and dictionaries\<close>

text \<open>
  The module under study is \<^verbatim>\<open>reana_server/status.py\<close>. Every method that can raise is
  modelled as a function into \<open>error + 'a\<close>, with \<open>Inl\<close> carrying the exception.
  A Python \<^verbatim>\<open>str\<close> is a \<open>string\<close>; the model covers the code points below 256.
\<close>

datatype error =
    NameError string
  | KeyError string
  | IndexError
  | ValueError
  | ZeroDivisionError
  | ApiException
  | CalledProcessError
  | OtherError string

text \<open>Sequencing of two fallible computations: the first exception wins.\<close>

definition bind_err :: "error + 'a \<Rightarrow> ('a \<Rightarrow> error + 'b) \<Rightarrow> error + 'b" where
  "bind_err m f = (case m of Inl e \<Rightarrow> Inl e | Inr x \<Rightarrow> f x)"

fun mapM :: "('a \<Rightarrow> error + 'b) \<Rightarrow> 'a list \<Rightarrow> error + 'b list" where
  "mapM f [] = Inr []"
| "mapM f (x # xs) =
     (case f x of
        Inl e \<Rightarrow> Inl e
      | Inr y \<Rightarrow> (case mapM f xs of Inl e \<Rightarrow> Inl e | Inr ys \<Rightarrow> Inr (y # ys)))"

subsection \<open>Strings\<close>

definition LF :: char where "LF = CHR 0x0A"
definition CR :: char where "CR = CHR 0x0D"

text \<open>\<^verbatim>\<open>str.isspace\<close> on one character, for the code points below 256.\<close>

definition isspace :: "char \<Rightarrow> bool" where
  "isspace c = (c \<in> set [CHR 0x09, CHR 0x0A, CHR 0x0B, CHR 0x0C, CHR 0x0D,
                          CHR 0x1C, CHR 0x1D, CHR 0x1E, CHR 0x1F, CHR 0x20,
                          CHR 0x85, CHR 0xA0])"

text \<open>The line boundaries of \<^verbatim>\<open>str.splitlines\<close> other than CR, for the code points below 256.\<close>

definition is_linebreak :: "char \<Rightarrow> bool" where
  "is_linebreak c = (c \<in> set [CHR 0x0A, CHR 0x0B, CHR 0x0C, CHR 0x1C, CHR 0x1D, CHR 0x1E,
                              CHR 0x85])"

text \<open>\<^verbatim>\<open>s.split()\<close>: the maximal runs of non-space characters.\<close>

fun split_from :: "string \<Rightarrow> string \<Rightarrow> string list" where
  "split_from cur [] = (if cur = [] then [] else [cur])"
| "split_from cur (c # cs) =
     (if isspace c then (if cur = [] then split_from [] cs else cur # split_from [] cs)
      else split_from (cur @ [c]) cs)"

definition split :: "string \<Rightarrow> string list" where
  "split s = split_from [] s"

text \<open>\<^verbatim>\<open>s.splitlines()\<close>: CR LF counts as one boundary; no empty last line.\<close>

fun splitlines_from :: "string \<Rightarrow> string \<Rightarrow> string list" where
  "splitlines_from cur [] = (if cur = [] then [] else [cur])"
| "splitlines_from cur [c] =
     (if c = CR \<or> is_linebreak c then [cur] else [cur @ [c]])"
| "splitlines_from cur (c # d # cs) =
     (if c = CR \<and> d = LF then cur # splitlines_from [] cs
      else if c = CR \<or> is_linebreak c then cur # splitlines_from [] (d # cs)
      else splitlines_from (cur @ [c]) (d # cs))"

definition splitlines :: "string \<Rightarrow> string list" where
  "splitlines s = splitlines_from [] s"

text \<open>\<^verbatim>\<open>s.rstrip(chars)\<close>, \<^verbatim>\<open>s.startswith(p)\<close>, \<^verbatim>\<open>sep.join(xs)\<close>.\<close>

definition rstrip :: "string \<Rightarrow> string \<Rightarrow> string" where
  "rstrip chars s = rev (dropWhile (\<lambda>c. c \<in> set chars) (rev s))"

definition startswith :: "string \<Rightarrow> string \<Rightarrow> bool" where
  "startswith s p = (take (length p) s = p)"

fun join :: "string \<Rightarrow> string list \<Rightarrow> string" where
  "join sep [] = []"
| "join sep [x] = x"
| "join sep (x # y # xs) = x @ sep @ join sep (y # xs)"

text \<open>\<^verbatim>\<open>s.lower()\<close> for the code points below 256: A-Z and the Latin-1 capitals.\<close>

definition lower_char :: "char \<Rightarrow> char" where
  "lower_char c =
     (let n = (of_char c :: nat)
      in if (65 \<le> n \<and> n \<le> 90) \<or> (192 \<le> n \<and> n \<le> 222 \<and> n \<noteq> 215)
         then char_of (n + 32) else c)"

definition lower :: "string \<Rightarrow> string" where
  "lower s = map lower_char s"

text \<open>\<^verbatim>\<open>str(n)\<close> for an integer.\<close>

fun str_nat :: "nat \<Rightarrow> string" where
  "str_nat n =
     (if n < 10 then [char_of (48 + n)] else str_nat (n div 10) @ [char_of (48 + n mod 10)])"

definition str_int :: "int \<Rightarrow> string" where
  "str_int i = (if i < 0 then CHR ''-'' # str_nat (nat (- i)) else str_nat (nat i))"

text \<open>How an f-string renders the result of \<^verbatim>\<open>d.get(k)\<close>: a missing key prints as None.\<close>

definition str_opt :: "string option \<Rightarrow> string" where
  "str_opt v = (case v of None \<Rightarrow> ''None'' | Some s \<Rightarrow> s)"

subsection \<open>Lists\<close>

text \<open>\<^verbatim>\<open>xs[i]\<close> for \<open>i \<ge> 0\<close> and \<^verbatim>\<open>xs.index(v)\<close>, both with their exceptions.\<close>

definition getitem :: "'a list \<Rightarrow> nat \<Rightarrow> error + 'a" where
  "getitem xs i = (if i < length xs then Inr (xs ! i) else Inl IndexError)"

fun index :: "'a list \<Rightarrow> 'a \<Rightarrow> error + nat" where
  "index [] v = Inl ValueError"
| "index (x # xs) v =
     (if x = v then Inr 0 else (case index xs v of Inl e \<Rightarrow> Inl e | Inr i \<Rightarrow> Inr (Suc i)))"

subsection \<open>Dictionaries\<close>

text \<open>
  A \<^verbatim>\<open>dict\<close> is an association list in insertion order whose keys are distinct:
  storing under a key that is present replaces the value in place.
\<close>

type_synonym ('k, 'v) dict = "('k \<times> 'v) list"

fun dict_set :: "('k, 'v) dict \<Rightarrow> 'k \<Rightarrow> 'v \<Rightarrow> ('k, 'v) dict" where
  "dict_set [] k v = [(k, v)]"
| "dict_set ((k', v') # d) k v =
     (if k' = k then (k', v) # d else (k', v') # dict_set d k v)"

definition dict_get :: "('k, 'v) dict \<Rightarrow> 'k \<Rightarrow> 'v option" where
  "dict_get d k = map_of d k"

definition dict_getitem :: "(string, 'v) dict \<Rightarrow> string \<Rightarrow> error + 'v" where
  "dict_getitem d k = (case map_of d k of None \<Rightarrow> Inl (KeyError k) | Some v \<Rightarrow> Inr v)"

definition keys :: "('k, 'v) dict \<Rightarrow> 'k list" where
  "keys d = map fst d"

text \<open>A dict comprehension: the pairs are stored from left to right.\<close>

definition dict_of :: "('k \<times> 'v) list \<Rightarrow> ('k, 'v) dict" where
  "dict_of kvs = fold (\<lambda>(k, v) d. dict_set d k v) kvs []"

section \<open>The data the module reads\<close>

text \<open>
  Modelled from the spec: the enums \<^verbatim>\<open>RunStatus\<close>, \<^verbatim>\<open>JobStatus\<close> and \<^verbatim>\<open>ResourceType\<close> are
  declared in \<^verbatim>\<open>reana_db.models\<close>, outside this module. Their members are the ones the
  glossary and sections 4.6 and 4.9 of the specification list.
\<close>

datatype RunStatus = pending | running | finished | failed | stopped | deleted | queued

datatype JobStatus = job_running | job_finished | job_failed | job_queued

text \<open>\<^verbatim>\<open>status.name\<close> of a \<^verbatim>\<open>JobStatus\<close> member.\<close>

fun JobStatus_name :: "JobStatus \<Rightarrow> string" where
  "JobStatus_name job_running = ''running''"
| "JobStatus_name job_finished = ''finished''"
| "JobStatus_name job_failed = ''failed''"
| "JobStatus_name job_queued = ''queued''"

datatype ResourceType = disk | cpu

text \<open>
  Modelled from the spec: the rows of the tables (section 3 of the specification). A column
  that can hold NULL is an \<open>option\<close>. A user-resource row carries the columns of the user and
  of the resource it is joined with. Times are microseconds on the clock of
  \<^verbatim>\<open>datetime.now()\<close>.
\<close>

record User =
  email :: string
  workspace_path :: string

record InteractiveSession =
  session_status :: RunStatus

record Workflow =
  status :: RunStatus
  restart :: "bool option"
  git_repo :: "string option"
  run_started_at :: "int option"
  updated :: "int option"

record Job =
  job_status :: JobStatus
  compute_backend :: "string option"

record UserResource =
  user_email :: string
  resource_type :: ResourceType
  resource_unit :: string
  quota_used :: int
  quota_limit :: int

text \<open>
  What the cluster API returns: a node with \<^verbatim>\<open>metadata.name\<close> and \<^verbatim>\<open>status.capacity\<close>, and
  an item of the node metrics, whose \<^verbatim>\<open>metadata\<close> and \<^verbatim>\<open>usage\<close> entries may be missing.
\<close>

record Node =
  node_name :: string
  capacity :: "(string, string) dict"

record NodeMetric =
  metadata :: "(string, string) dict option"
  usage :: "(string, string) dict option"

text \<open>
  Everything outside the module: the clock, the configuration constants, the tables, the
  cluster clients, the subprocess call and the helpers imported from other packages.
  \<open>list_node\<close> takes the field selector, \<open>list_namespaced_pod\<close> the namespace and the field
  selector and gives the names of the pods listed, \<open>list_cluster_custom_object\<close> gives the
  \<^verbatim>\<open>items\<close> entry of the response when it has one, \<open>check_output\<close> gives the decoded output
  of a command. \<open>round_percentage a b\<close> stands for the floating-point expression
  \<^verbatim>\<open>round(a / b * 100)\<close> with \<open>b \<noteq> 0\<close>. \<open>sql_percentage used lim\<close> stands for the value
  that the database gives to the expression \<^verbatim>\<open>quota_used * 100.0 / quota_limit\<close> of a row
  with \<open>lim \<noteq> 0\<close>: a number of the finite precision of the database, which need not be
  the exact quotient.
\<close>

record env =
  now :: int
  REANA_INFRASTRUCTURE_KUBERNETES_NAMESPACE :: string
  REANA_RUNTIME_KUBERNETES_NAMESPACE :: string
  SHARED_VOLUME_PATH :: string
  REANA_COMPONENT_PREFIX :: string
  interactive_session_table :: "InteractiveSession list"
  workflow_table :: "Workflow list"
  session_activity_table :: "string list"
  job_table :: "Job list"
  user_resource_table :: "UserResource list"
  sql_percentage :: "int \<Rightarrow> int \<Rightarrow> rat"
  list_node :: "string option \<Rightarrow> error + Node list"
  list_namespaced_pod :: "string \<Rightarrow> string \<Rightarrow> error + string list"
  list_cluster_custom_object :: "string \<Rightarrow> string \<Rightarrow> string \<Rightarrow> error + NodeMetric list option"
  check_output :: "string list \<Rightarrow> error + string"
  kubernetes_memory_to_bytes :: "string \<Rightarrow> error + int"
  round_percentage :: "int \<Rightarrow> int \<Rightarrow> error + int"
  human_readable_unit :: "string \<Rightarrow> int \<Rightarrow> error + string"
  get_usage_percentage :: "int \<Rightarrow> int \<Rightarrow> error + string"

subsection \<open>Queries\<close>

text \<open>
  A comparison on a column is three-valued: on NULL it is unknown (\<open>None\<close>). A filter keeps
  the rows on which its condition is true, and \<^verbatim>\<open>count()\<close> is the number of rows left.
\<close>

definition sql_eq :: "'a option \<Rightarrow> 'a \<Rightarrow> bool option" where
  "sql_eq c v = map_option (\<lambda>x. x = v) c"

definition sql_ne :: "'a option \<Rightarrow> 'a \<Rightarrow> bool option" where
  "sql_ne c v = map_option (\<lambda>x. x \<noteq> v) c"

definition sql_le :: "int option \<Rightarrow> int \<Rightarrow> bool option" where
  "sql_le c v = map_option (\<lambda>x. x \<le> v) c"

definition sql_notin :: "'a option \<Rightarrow> 'a list \<Rightarrow> bool option" where
  "sql_notin c vs = map_option (\<lambda>x. x \<notin> set vs) c"

definition sql_filter :: "('r \<Rightarrow> bool option) \<Rightarrow> 'r list \<Rightarrow> 'r list" where
  "sql_filter p rows = filter (\<lambda>r. p r = Some True) rows"

definition sql_count :: "'r list \<Rightarrow> int" where
  "sql_count rows = int (length rows)"

text \<open>
  \<^verbatim>\<open>order_by(desc(key))\<close> and \<^verbatim>\<open>limit(n)\<close>. The database leaves the order of rows with equal
  keys open; in the model they stay in the order of the table.
\<close>

definition order_by_desc :: "('r \<Rightarrow> 'k::linorder) \<Rightarrow> 'r list \<Rightarrow> 'r list" where
  "order_by_desc key rows = rev (sort_key key (rev rows))"

definition limit :: "nat \<Rightarrow> 'r list \<Rightarrow> 'r list" where
  "limit n rows = take n rows"

subsection \<open>Durations\<close>

definition timedelta_days :: "int \<Rightarrow> int" where
  "timedelta_days d = d * 86400000000"

definition timedelta_hours :: "int \<Rightarrow> int" where
  "timedelta_hours h = h * 3600000000"

definition timedelta_minutes :: "int \<Rightarrow> int" where
  "timedelta_minutes m = m * 60000000"

section \<open>The status providers\<close>

subsection \<open>REANAStatus\<close>

text \<open>
  The attributes set by \<^verbatim>\<open>REANAStatus.__init__\<close>. \<open>namespaces\<close> is a Python set of two
  constants: equal constants give one element. Its iteration order is not fixed by Python;
  the model lists the infrastructure namespace first.
\<close>

record REANAStatus =
  from_ :: int
  until :: int
  user :: "User option"
  namespaces :: "string list"

definition REANAStatus_init ::
  "int option \<Rightarrow> int option \<Rightarrow> User option \<Rightarrow> env \<Rightarrow> REANAStatus" where
  "REANAStatus_init from_arg until_arg user_arg e =
     \<lparr> from_ = (case from_arg of None \<Rightarrow> now e - timedelta_days 1 | Some t \<Rightarrow> t),
       until = (case until_arg of None \<Rightarrow> now e | Some t \<Rightarrow> t),
       user = user_arg,
       namespaces = remdups [REANA_INFRASTRUCTURE_KUBERNETES_NAMESPACE e,
                             REANA_RUNTIME_KUBERNETES_NAMESPACE e] \<rparr>"

definition execute_cmd :: "'a REANAStatus_scheme \<Rightarrow> env \<Rightarrow> string list \<Rightarrow> error + string" where
  "execute_cmd self e cmd = bind_err (check_output e cmd) (\<lambda>out. Inr (rstrip [CR, LF] out))"

subsection \<open>InteractiveSessionsStatus\<close>

definition get_active :: "'a REANAStatus_scheme \<Rightarrow> env \<Rightarrow> int" where
  "get_active self e =
     (let non_active_statuses = [stopped, deleted, failed]
      in sql_count
           (sql_filter (\<lambda>r. sql_notin (Some (session_status r)) non_active_statuses)
              (interactive_session_table e)))"

definition InteractiveSessionsStatus_get_status ::
  "'a REANAStatus_scheme \<Rightarrow> env \<Rightarrow> (string, int) dict" where
  "InteractiveSessionsStatus_get_status self e = [(''active'', get_active self e)]"

subsection \<open>SystemStatus\<close>

definition uptime :: "'a REANAStatus_scheme \<Rightarrow> env \<Rightarrow> error + string" where
  "uptime self e = execute_cmd self e [''uptime'', ''-p'']"

definition SystemStatus_get_status ::
  "'a REANAStatus_scheme \<Rightarrow> env \<Rightarrow> error + (string, string) dict" where
  "SystemStatus_get_status self e =
     bind_err (uptime self e) (\<lambda>u. Inr [(''uptime'', u)])"

subsection \<open>StorageStatus\<close>

definition get_path :: "'a REANAStatus_scheme \<Rightarrow> env \<Rightarrow> string" where
  "get_path self e =
     (case user self of
        Some u \<Rightarrow> workspace_path u
      | None \<Rightarrow> SHARED_VOLUME_PATH e @ ''/users'')"

definition users_directory_size :: "'a REANAStatus_scheme \<Rightarrow> env \<Rightarrow> error + string" where
  "users_directory_size self e =
     (let depth = 0;
          cmd = [''du'', ''-h'', ''--max-depth='' @ str_int depth, get_path self e]
      in bind_err (execute_cmd self e cmd) (\<lambda>output. getitem (split output) 0))"

definition shared_volume_health :: "'a REANAStatus_scheme \<Rightarrow> env \<Rightarrow> error + string" where
  "shared_volume_health self e =
     (let cmd = [''df'', ''-h'', SHARED_VOLUME_PATH e]
      in bind_err (execute_cmd self e cmd) (\<lambda>out.
         let output = splitlines out
         in bind_err (getitem output 0) (\<lambda>line0.
            let headers = split line0
            in bind_err (getitem output 1) (\<lambda>line1.
               let values = split line1
               in bind_err (index headers ''Used'') (\<lambda>used_index.
                  bind_err (index headers ''Avail'') (\<lambda>available_index.
                  bind_err (index headers ''Use%'') (\<lambda>use_percentage_index.
                  bind_err (getitem values used_index) (\<lambda>used.
                  bind_err (getitem values available_index) (\<lambda>available.
                  bind_err (getitem values use_percentage_index) (\<lambda>use_percentage.
                  Inr (used @ ''/'' @ available @ '' ('' @ use_percentage @ '')'')))))))))))"

definition StorageStatus_get_status ::
  "'a REANAStatus_scheme \<Rightarrow> env \<Rightarrow> error + (string, string) dict" where
  "StorageStatus_get_status self e =
     bind_err (users_directory_size self e) (\<lambda>size.
     bind_err (shared_volume_health self e) (\<lambda>health.
     Inr [(''user_directory_size'', size), (''shared_volume_health'', health)]))"

subsection \<open>UsersStatus\<close>

definition active_web_users :: "'a REANAStatus_scheme \<Rightarrow> env \<Rightarrow> int" where
  "active_web_users self e = sql_count (session_activity_table e)"

definition UsersStatus_get_status :: "'a REANAStatus_scheme \<Rightarrow> env \<Rightarrow> (string, int) dict" where
  "UsersStatus_get_status self e = [(''active_web_users'', active_web_users self e)]"

subsection \<open>WorkflowsStatus\<close>

definition get_workflows_by_status :: "'a REANAStatus_scheme \<Rightarrow> env \<Rightarrow> RunStatus \<Rightarrow> int" where
  "get_workflows_by_status self e st =
     sql_count (sql_filter (\<lambda>w. sql_eq (Some (status w)) st) (workflow_table e))"

definition restarted_workflows :: "'a REANAStatus_scheme \<Rightarrow> env \<Rightarrow> int" where
  "restarted_workflows self e = sql_count (sql_filter (\<lambda>w. restart w) (workflow_table e))"

definition stuck_in_running_workflows :: "'a REANAStatus_scheme \<Rightarrow> env \<Rightarrow> int" where
  "stuck_in_running_workflows self e =
     (let inactivity_threshold = now e - timedelta_hours 12
      in sql_count
           (sql_filter (\<lambda>w. sql_le (updated w) inactivity_threshold)
           (sql_filter (\<lambda>w. sql_le (run_started_at w) inactivity_threshold)
           (sql_filter (\<lambda>w. sql_eq (Some (status w)) running)
              (workflow_table e)))))"

definition stuck_in_pending_workflows :: "'a REANAStatus_scheme \<Rightarrow> env \<Rightarrow> int" where
  "stuck_in_pending_workflows self e =
     (let inactivity_threshold = now e - timedelta_minutes 20
      in sql_count
           (sql_filter (\<lambda>w. sql_le (updated w) inactivity_threshold)
           (sql_filter (\<lambda>w. sql_eq (Some (status w)) pending)
              (workflow_table e))))"

definition git_workflows :: "'a REANAStatus_scheme \<Rightarrow> env \<Rightarrow> int" where
  "git_workflows self e =
     sql_count (sql_filter (\<lambda>w. sql_ne (git_repo w) []) (workflow_table e))"

definition WorkflowsStatus_get_status :: "'a REANAStatus_scheme \<Rightarrow> env \<Rightarrow> (string, int) dict" where
  "WorkflowsStatus_get_status self e =
     [(''running'', get_workflows_by_status self e running),
      (''finished'', get_workflows_by_status self e finished),
      (''stuck in running'', stuck_in_running_workflows self e),
      (''stuck in pending'', stuck_in_pending_workflows self e),
      (''queued'', get_workflows_by_status self e queued),
      (''restarts'', restarted_workflows self e),
      (''git_source'', git_workflows self e)]"

subsection \<open>QuotaUsageStatus\<close>

definition format_user_data ::
  "'a REANAStatus_scheme \<Rightarrow> env \<Rightarrow> UserResource list \<Rightarrow> error + (string, string) dict list" where
  "format_user_data self e users =
     mapM (\<lambda>u.
        bind_err (human_readable_unit e (resource_unit u) (quota_used u)) (\<lambda>used.
        bind_err (human_readable_unit e (resource_unit u) (quota_limit u)) (\<lambda>lim.
        bind_err (get_usage_percentage e (quota_used u) (quota_limit u)) (\<lambda>percentage.
        Inr [(''email'', user_email u), (''used'', used), (''limit'', lim),
             (''percentage'', percentage)]))))
       users"

text \<open>
  The query of \<open>get_top_five_percentage\<close> (its local \<^verbatim>\<open>users\<close>), then the method. The
  ordering key \<^verbatim>\<open>quota_used * 100.0 / quota_limit\<close> is computed by the database.
\<close>

definition get_top_five_percentage_users ::
  "'a REANAStatus_scheme \<Rightarrow> env \<Rightarrow> ResourceType \<Rightarrow> UserResource list" where
  "get_top_five_percentage_users self e rt =
     limit 5
       (order_by_desc (\<lambda>u. sql_percentage e (quota_used u) (quota_limit u))
          (sql_filter (\<lambda>u. sql_ne (Some (quota_limit u)) 0)
          (sql_filter (\<lambda>u. sql_eq (Some (resource_type u)) rt)
             (user_resource_table e))))"

definition get_top_five_percentage ::
  "'a REANAStatus_scheme \<Rightarrow> env \<Rightarrow> ResourceType \<Rightarrow> error + (string, string) dict list" where
  "get_top_five_percentage self e rt =
     format_user_data self e (get_top_five_percentage_users self e rt)"

text \<open>The query of \<open>get_top_five\<close> (its local \<^verbatim>\<open>users\<close>), then the method.\<close>

definition get_top_five_users ::
  "'a REANAStatus_scheme \<Rightarrow> env \<Rightarrow> ResourceType \<Rightarrow> UserResource list" where
  "get_top_five_users self e rt =
     limit 5
       (order_by_desc quota_used
          (sql_filter (\<lambda>u. sql_eq (Some (resource_type u)) rt)
             (user_resource_table e)))"

definition get_top_five ::
  "'a REANAStatus_scheme \<Rightarrow> env \<Rightarrow> ResourceType \<Rightarrow> error + (string, string) dict list" where
  "get_top_five self e rt = format_user_data self e (get_top_five_users self e rt)"

definition QuotaUsageStatus_get_status ::
  "'a REANAStatus_scheme \<Rightarrow> env \<Rightarrow> error + (string, (string, string) dict list) dict" where
  "QuotaUsageStatus_get_status self e =
     bind_err (get_top_five self e disk) (\<lambda>top_disk.
     bind_err (get_top_five self e cpu) (\<lambda>top_cpu.
     bind_err (get_top_five_percentage self e disk) (\<lambda>pct_disk.
     bind_err (get_top_five_percentage self e cpu) (\<lambda>pct_cpu.
     Inr [(''top_five_disk'', top_disk), (''top_five_cpu'', top_cpu),
          (''top_five_disk_percentage'', pct_disk),
          (''top_five_cpu_percentage'', pct_cpu)]))))"

subsection \<open>NodesStatus\<close>

text \<open>
  The names the module binds at its top level: those of its \<^verbatim>\<open>import\<close> statements
  (lines 11 to 41), its classes and its dispatch table. A name read inside a method is
  looked up here; one that is neither here nor a builtin raises \<^verbatim>\<open>NameError\<close>.
\<close>

definition module_globals :: "string list" where
  "module_globals =
     [''logging'', ''subprocess'', ''datetime'', ''timedelta'', ''SessionActivity'',
      ''REANA_COMPONENT_PREFIX'', ''REANA_INFRASTRUCTURE_KUBERNETES_NAMESPACE'',
      ''REANA_RUNTIME_KUBERNETES_NAMESPACE'', ''SHARED_VOLUME_PATH'',
      ''kubernetes_memory_to_bytes'', ''current_k8s_corev1_api_client'',
      ''current_k8s_custom_objects_api_client'', ''Session'', ''InteractiveSession'',
      ''Job'', ''JobStatus'', ''Resource'', ''ResourceType'', ''ResourceUnit'', ''RunStatus'',
      ''User'', ''UserResource'', ''Workflow'', ''get_usage_percentage'', ''desc'',
      ''REANAStatus'', ''InteractiveSessionsStatus'', ''SystemStatus'', ''StorageStatus'',
      ''UsersStatus'', ''WorkflowsStatus'', ''QuotaUsageStatus'', ''NodesStatus'',
      ''PodsStatus'', ''JobsStatus'', ''STATUS_OBJECT_TYPES'']"

text \<open>The class of an exception, by name.\<close>

fun error_class :: "error \<Rightarrow> string" where
  "error_class (NameError n) = ''NameError''"
| "error_class (KeyError k) = ''KeyError''"
| "error_class IndexError = ''IndexError''"
| "error_class ValueError = ''ValueError''"
| "error_class ZeroDivisionError = ''ZeroDivisionError''"
| "error_class ApiException = ''ApiException''"
| "error_class CalledProcessError = ''CalledProcessError''"
| "error_class (OtherError n) = n"

text \<open>
  \<^verbatim>\<open>except cls:\<close> when an exception reaches it: the name \<open>cls\<close> is evaluated first (it is
  not the name of a builtin in this module), then compared with the class of the exception.
\<close>

definition except_matches :: "string \<Rightarrow> error \<Rightarrow> error + bool" where
  "except_matches cls exc =
     (if cls \<in> set module_globals then Inr (error_class exc = cls) else Inl (NameError cls))"

definition get_nodes :: "'a REANAStatus_scheme \<Rightarrow> env \<Rightarrow> error + string list" where
  "get_nodes self e = bind_err (list_node e None) (\<lambda>nodes. Inr (map node_name nodes))"

definition get_unschedulable_nodes :: "'a REANAStatus_scheme \<Rightarrow> env \<Rightarrow> error + string list" where
  "get_unschedulable_nodes self e =
     bind_err (list_node e (Some ''spec.unschedulable=true''))
       (\<lambda>nodes. Inr (map node_name nodes))"

type_synonym memory_usage = "(string, (string, string) dict) dict"

text \<open>The first loop of \<open>get_memory_usage\<close>: the capacity of every node.\<close>

fun record_capacity :: "Node list \<Rightarrow> memory_usage \<Rightarrow> error + memory_usage" where
  "record_capacity [] result = Inr result"
| "record_capacity (node # nodes) result =
     bind_err (dict_getitem (capacity node) ''memory'') (\<lambda>c.
     record_capacity nodes (dict_set result (node_name node) [(''capacity'', c)]))"

text \<open>The loop over the items of the metrics: usage and percentage of every node listed.\<close>

fun record_usage :: "env \<Rightarrow> NodeMetric list \<Rightarrow> memory_usage \<Rightarrow> error + memory_usage" where
  "record_usage e [] result = Inr result"
| "record_usage e (node_metric # node_metrics) result =
     bind_err (case metadata node_metric of
                 None \<Rightarrow> Inl (KeyError ''metadata'') | Some md \<Rightarrow> Inr md) (\<lambda>md.
     bind_err (dict_getitem md ''name'') (\<lambda>name.
     bind_err (case usage node_metric of
                 None \<Rightarrow> Inl (KeyError ''usage'') | Some us \<Rightarrow> Inr us) (\<lambda>us.
     bind_err (dict_getitem us ''memory'') (\<lambda>node_usage.
     bind_err (dict_getitem result name) (\<lambda>entry.
     let entry1 = dict_set entry ''usage'' node_usage;
         result1 = dict_set result name entry1
     in bind_err (dict_getitem entry1 ''capacity'') (\<lambda>node_capacity.
        bind_err (kubernetes_memory_to_bytes e node_usage) (\<lambda>usage_bytes.
        bind_err (kubernetes_memory_to_bytes e node_capacity) (\<lambda>capacity_bytes.
        bind_err (if capacity_bytes = 0 then Inl ZeroDivisionError
                  else round_percentage e usage_bytes capacity_bytes) (\<lambda>node_usage_percentage.
        let entry2 = dict_set entry1 ''percentage'' (str_int node_usage_percentage @ ''%'')
        in record_usage e node_metrics (dict_set result1 name entry2))))))))))"

text \<open>The body of the \<^verbatim>\<open>try\<close> block of \<open>get_memory_usage\<close>.\<close>

definition try_node_metrics :: "env \<Rightarrow> memory_usage \<Rightarrow> error + memory_usage" where
  "try_node_metrics e result =
     bind_err (list_cluster_custom_object e ''metrics.k8s.io'' ''v1beta1'' ''nodes'')
       (\<lambda>node_metrics.
          record_usage e (case node_metrics of None \<Rightarrow> [] | Some items \<Rightarrow> items) result)"

definition get_memory_usage :: "'a REANAStatus_scheme \<Rightarrow> env \<Rightarrow> error + memory_usage" where
  "get_memory_usage self e =
     bind_err (list_node e None) (\<lambda>nodes.
     bind_err (record_capacity nodes []) (\<lambda>result.
     case try_node_metrics e result of
       Inr result' \<Rightarrow> Inr result'
     | Inl exc \<Rightarrow>
         (case except_matches ''ApiException'' exc of
            Inl name_error \<Rightarrow> Inl name_error
          | Inr True \<Rightarrow> Inr []
          | Inr False \<Rightarrow> Inl exc)))"

definition get_friendly_memory_usage :: "'a REANAStatus_scheme \<Rightarrow> env \<Rightarrow> error + string" where
  "get_friendly_memory_usage self e =
     bind_err (get_memory_usage self e) (\<lambda>memory_usage.
     Inr (if memory_usage \<noteq> []
          then concat (map (\<lambda>(node, memory).
                  [LF] @ ''  '' @ node @ '': '' @ str_opt (dict_get memory ''usage'') @ ''/''
                    @ str_opt (dict_get memory ''capacity'') @ '' (''
                    @ str_opt (dict_get memory ''percentage'') @ '')'') memory_usage)
          else []))"

datatype nodes_value = NodeNames "string list" | MemoryUsage string

definition NodesStatus_get_status ::
  "'a REANAStatus_scheme \<Rightarrow> env \<Rightarrow> error + (string, nodes_value) dict" where
  "NodesStatus_get_status self e =
     bind_err (get_unschedulable_nodes self e) (\<lambda>unschedulable.
     bind_err (get_friendly_memory_usage self e) (\<lambda>memory.
     Inr [(''unschedulable_nodes'', NodeNames unschedulable),
          (''memory_usage'', MemoryUsage memory)]))"

subsection \<open>PodsStatus\<close>

record PodsStatus = REANAStatus +
  statuses :: "string list"

definition PodsStatus_init ::
  "int option \<Rightarrow> int option \<Rightarrow> User option \<Rightarrow> env \<Rightarrow> PodsStatus" where
  "PodsStatus_init from_arg until_arg user_arg e =
     REANAStatus.extend (REANAStatus_init from_arg until_arg user_arg e)
       (PodsStatus.fields [''Running'', ''Pending'', ''Suceeded'', ''Failed'', ''Unknown''])"

definition get_pods_by_status ::
  "'a REANAStatus_scheme \<Rightarrow> env \<Rightarrow> string \<Rightarrow> string \<Rightarrow> error + string list" where
  "get_pods_by_status self e st namespace =
     list_namespaced_pod e namespace (''status.phase='' @ st)"

definition get_friendly_pods_by_status ::
  "'a REANAStatus_scheme \<Rightarrow> env \<Rightarrow> string \<Rightarrow> string \<Rightarrow> error + string" where
  "get_friendly_pods_by_status self e st namespace =
     bind_err (get_pods_by_status self e st namespace) (\<lambda>pods.
     Inr (join ([LF] @ ''  '') ([] # pods)))"

definition pods_key :: "string \<Rightarrow> string \<Rightarrow> string" where
  "pods_key ns st = ns @ ''_'' @ lower st @ ''_pods''"

definition PodsStatus_get_status ::
  "'a PodsStatus_scheme \<Rightarrow> env \<Rightarrow> error + (string, string) dict" where
  "PodsStatus_get_status self e =
     bind_err
       (mapM (\<lambda>(ns, st).
           bind_err (get_friendly_pods_by_status self e st ns) (\<lambda>v. Inr (pods_key ns st, v)))
          (List.product (namespaces self) (statuses self)))
       (\<lambda>kvs. Inr (dict_of kvs))"

subsection \<open>JobsStatus\<close>

record JobsStatus = REANAStatus +
  compute_backends :: "string list"
  job_statuses :: "JobStatus list"

definition JobsStatus_init ::
  "int option \<Rightarrow> int option \<Rightarrow> User option \<Rightarrow> env \<Rightarrow> JobsStatus" where
  "JobsStatus_init from_arg until_arg user_arg e =
     REANAStatus.extend (REANAStatus_init from_arg until_arg user_arg e)
       (JobsStatus.fields [''Kubernetes'', ''HTCondor'', ''Slurm'']
          [job_running, job_finished, job_failed, job_queued])"

definition get_jobs_by_status_and_compute_backend ::
  "'a REANAStatus_scheme \<Rightarrow> env \<Rightarrow> JobStatus \<Rightarrow> string option \<Rightarrow> int" where
  "get_jobs_by_status_and_compute_backend self e st backend =
     (let query = sql_filter (\<lambda>j. sql_eq (Some (job_status j)) st) (job_table e);
          query = (case backend of
                     None \<Rightarrow> query
                   | Some b \<Rightarrow>
                       if b \<noteq> [] then sql_filter (\<lambda>j. sql_eq (compute_backend j) b) query
                       else query)
      in sql_count query)"

definition get_k8s_jobs_by_status ::
  "'a REANAStatus_scheme \<Rightarrow> env \<Rightarrow> string \<Rightarrow> error + string list" where
  "get_k8s_jobs_by_status self e st =
     bind_err (list_namespaced_pod e (REANA_RUNTIME_KUBERNETES_NAMESPACE e)
                 (''status.phase='' @ st)) (\<lambda>pods.
     Inr (filter (\<lambda>name. startswith name (REANA_COMPONENT_PREFIX e @ ''-run-job'')) pods))"

definition JobsStatus_get_status ::
  "'a JobsStatus_scheme \<Rightarrow> env \<Rightarrow> error + (string, (string, int) dict) dict" where
  "JobsStatus_get_status self e =
     (let job_statuses_dict =
            dict_of (map (\<lambda>backend.
               (lower backend,
                dict_of (map (\<lambda>st.
                   (JobStatus_name st,
                    get_jobs_by_status_and_compute_backend self e st (Some backend)))
                  (job_statuses self))))
              (compute_backends self))
      in bind_err (get_k8s_jobs_by_status self e ''Running'') (\<lambda>running_pods.
         bind_err (get_k8s_jobs_by_status self e ''Pending'') (\<lambda>pending_pods.
         Inr (dict_set job_statuses_dict ''kubernetes_api''
                [(''running'', int (length running_pods)),
                 (''pending'', int (length pending_pods))]))))"

section \<open>Example surroundings\<close>

text \<open>
  A deployment with empty tables and an empty, reachable cluster; the examples below
  change the parts they are about.
\<close>

definition idle_env :: env where
  "idle_env =
     \<lparr> now = 1000000000000,
       REANA_INFRASTRUCTURE_KUBERNETES_NAMESPACE = ''reana'',
       REANA_RUNTIME_KUBERNETES_NAMESPACE = ''reana-runtime'',
       SHARED_VOLUME_PATH = ''/data'',
       REANA_COMPONENT_PREFIX = ''reana'',
       interactive_session_table = [],
       workflow_table = [],
       session_activity_table = [],
       job_table = [],
       user_resource_table = [],
       sql_percentage = (\<lambda>used lim. of_int used * 100 / of_int lim),
       list_node = (\<lambda>selector. Inr []),
       list_namespaced_pod = (\<lambda>namespace selector. Inr []),
       list_cluster_custom_object = (\<lambda>grp version plural. Inr (Some [])),
       check_output = (\<lambda>cmd. Inl CalledProcessError),
       kubernetes_memory_to_bytes = (\<lambda>quantity. Inl ValueError),
       round_percentage = (\<lambda>a b. Inr 0),
       human_readable_unit = (\<lambda>unit n. Inr (str_int n)),
       get_usage_percentage = (\<lambda>used lim. Inr (str_int used @ ''/'' @ str_int lim)) \<rparr>"

text \<open>Five workflows, seen at \<open>now idle_env\<close>; twelve hours earlier is 956800000000.\<close>

definition example_workflows :: "Workflow list" where
  "example_workflows =
     [\<lparr> status = running, restart = Some False, git_repo = None,
        run_started_at = Some 900000000000, updated = Some 950000000000 \<rparr>,
      \<lparr> status = running, restart = Some False, git_repo = Some ''https://example.org/r.git'',
        run_started_at = Some 900000000000, updated = Some 999000000000 \<rparr>,
      \<lparr> status = running, restart = None, git_repo = Some [],
        run_started_at = None, updated = Some 950000000000 \<rparr>,
      \<lparr> status = pending, restart = Some True, git_repo = None,
        run_started_at = None, updated = Some 998000000000 \<rparr>,
      \<lparr> status = pending, restart = Some False, git_repo = Some ''git@example.org:w'',
        run_started_at = Some 999500000000, updated = Some 999500000000 \<rparr>]"

definition workflows_env :: env where
  "workflows_env = idle_env \<lparr> workflow_table := example_workflows \<rparr>"

definition sessions_env :: env where
  "sessions_env =
     idle_env \<lparr> interactive_session_table :=
       [\<lparr> session_status = running \<rparr>, \<lparr> session_status = stopped \<rparr>,
        \<lparr> session_status = pending \<rparr>, \<lparr> session_status = failed \<rparr>,
        \<lparr> session_status = deleted \<rparr>] \<rparr>"

text \<open>
  The output of \<^verbatim>\<open>df -h /data\<close> with one file system, and a host that prints it.
\<close>

definition df_output :: string where
  "df_output = ''Filesystem Size Used Avail Use% Mounted'' @ [LF]
                @ ''/dev/sda1 100G 40G 60G 40% /data'' @ [LF]"

definition df_env :: env where
  "df_env =
     idle_env \<lparr> check_output := (\<lambda>cmd.
        if cmd = [''df'', ''-h'', ''/data''] then Inr df_output else Inl CalledProcessError) \<rparr>"

text \<open>A cluster of two nodes, one of them cordoned, whose metrics API answers with an error.\<close>

definition metrics_down_env :: env where
  "metrics_down_env =
     idle_env \<lparr> list_node := (\<lambda>selector.
                   if selector = None
                   then Inr [\<lparr> node_name = ''node-1'', capacity = [(''memory'', ''16Gi'')] \<rparr>,
                             \<lparr> node_name = ''node-2'', capacity = [(''memory'', ''32Gi'')] \<rparr>]
                   else Inr [\<lparr> node_name = ''node-2'', capacity = [(''memory'', ''32Gi'')] \<rparr>]),
                list_cluster_custom_object := (\<lambda>grp version plural. Inl ApiException) \<rparr>"

text \<open>Four jobs, and three running pods in the runtime namespace, two of them job pods.\<close>

definition jobs_env :: env where
  "jobs_env =
     idle_env \<lparr> job_table :=
                  [\<lparr> job_status = job_running, compute_backend = Some ''Kubernetes'' \<rparr>,
                   \<lparr> job_status = job_running, compute_backend = Some ''Slurm'' \<rparr>,
                   \<lparr> job_status = job_failed, compute_backend = Some ''Kubernetes'' \<rparr>,
                   \<lparr> job_status = job_queued, compute_backend = None \<rparr>],
                list_namespaced_pod := (\<lambda>namespace selector.
                   if namespace = ''reana-runtime'' \<and> selector = ''status.phase=Running''
                   then Inr [''reana-run-job-1'', ''reana-run-batch-7'', ''reana-run-job-2'']
                   else Inr []) \<rparr>"

text \<open>
  Two running pods in the infrastructure namespace; and a deployment that runs everything
  in the one namespace \<^verbatim>\<open>default\<close>.
\<close>

definition pods_env :: env where
  "pods_env =
     idle_env \<lparr> list_namespaced_pod := (\<lambda>namespace selector.
        if namespace = ''reana'' \<and> selector = ''status.phase=Running''
        then Inr [''reana-server-0'', ''reana-db-0''] else Inr []) \<rparr>"

definition same_namespace_env :: env where
  "same_namespace_env =
     idle_env \<lparr> REANA_INFRASTRUCTURE_KUBERNETES_NAMESPACE := ''default'',
                REANA_RUNTIME_KUBERNETES_NAMESPACE := ''default'' \<rparr>"



text \<open>
  A host whose \<^verbatim>\<open>du\<close> and \<^verbatim>\<open>df\<close> answer for the shared volume, and two users: one with a
  workspace of her own, one whose workspace is the shared users directory.
\<close>

definition storage_env :: env where
  "storage_env =
     idle_env \<lparr> check_output := (\<lambda>cmd.
        if cmd = [''df'', ''-h'', ''/data''] then Inr df_output
        else if cmd = [''du'', ''-h'', ''--max-depth=0'', ''/data/users'']
        then Inr (''12G'' @ [CHR 0x09] @ ''/data/users'' @ [LF])
        else if cmd = [''du'', ''-h'', ''--max-depth=0'', ''/data/users/jane'']
        then Inr (''3G'' @ [CHR 0x09] @ ''/data/users/jane'' @ [LF])
        else Inl CalledProcessError) \<rparr>"

definition jane :: User where
  "jane = \<lparr> email = ''jane@example.org'', workspace_path = ''/data/users/jane'' \<rparr>"

definition shared_users_dir :: User where
  "shared_users_dir = \<lparr> email = ''ops@example.org'', workspace_path = ''/data/users'' \<rparr>"




section \<open>Properties\<close>

subsection \<open>Queries\<close>

lemma sql_eq_true: "(sql_eq c v = Some True) = (c = Some v)"
  by (cases c) (simp_all add: sql_eq_def)

lemma sql_ne_true: "(sql_ne c v = Some True) = (\<exists>x. c = Some x \<and> x \<noteq> v)"
  by (cases c) (simp_all add: sql_ne_def)

lemma sql_le_true: "(sql_le c v = Some True) = (\<exists>x. c = Some x \<and> x \<le> v)"
  by (cases c) (simp_all add: sql_le_def)

lemma sql_notin_true: "(sql_notin c vs = Some True) = (\<exists>x. c = Some x \<and> x \<notin> set vs)"
  by (cases c) (simp_all add: sql_notin_def)

lemma sql_filter_twice:
  "sql_filter p (sql_filter q rows) = filter (\<lambda>r. q r = Some True \<and> p r = Some True) rows"
  by (simp add: sql_filter_def conj_commute)

lemma sql_filter_thrice:
  "sql_filter p (sql_filter q (sql_filter q' rows)) =
     filter (\<lambda>r. q' r = Some True \<and> q r = Some True \<and> p r = Some True) rows"
  by (simp add: sql_filter_def conj_commute conj_left_commute)

subsection \<open>Workflows and interactive sessions\<close>

text \<open>
  C3. \<open>stuck_in_running_workflows\<close> counts exactly the workflow rows whose status is running,
  whose run-start time is present and no later than twelve hours (43200000000 microseconds)
  before now, and whose last-update time is present and no later than twelve hours before now.
  A row that misses one of the two time conditions is not counted, whatever the other one
  says.
\<close>

theorem stuck_in_running_counts:
  "stuck_in_running_workflows self e =
     int (length (filter
       (\<lambda>w. status w = running
            \<and> (\<exists>s. run_started_at w = Some s \<and> s \<le> now e - 43200000000)
            \<and> (\<exists>u. updated w = Some u \<and> u \<le> now e - 43200000000))
       (workflow_table e)))"
  by (simp add: stuck_in_running_workflows_def Let_def sql_count_def sql_filter_thrice
      sql_eq_true sql_le_true timedelta_hours_def)

theorem stuck_in_running_counts_witness:
  "stuck_in_running_workflows (REANAStatus_init None None None workflows_env) workflows_env = 1"
  using stuck_in_running_counts [of "REANAStatus_init None None None workflows_env" workflows_env]
  by (simp add: workflows_env_def idle_env_def example_workflows_def)

text \<open>
  C8. \<open>stuck_in_pending_workflows\<close> counts exactly the workflow rows whose status is pending
  and whose last-update time is present and no later than twenty minutes (1200000000
  microseconds) before now. The run-start time plays no part: rewriting that column in every
  row leaves the count as it is.
\<close>

theorem stuck_in_pending_counts:
  "stuck_in_pending_workflows self e =
     int (length (filter
       (\<lambda>w. status w = pending \<and> (\<exists>u. updated w = Some u \<and> u \<le> now e - 1200000000))
       (workflow_table e)))
   \<and> stuck_in_pending_workflows self
        (e\<lparr>workflow_table := map (\<lambda>w. w\<lparr>run_started_at := started w\<rparr>) (workflow_table e)\<rparr>)
      = stuck_in_pending_workflows self e"
  by (simp add: stuck_in_pending_workflows_def Let_def sql_count_def sql_filter_twice
      sql_eq_true sql_le_true timedelta_minutes_def filter_map comp_def)

theorem stuck_in_pending_counts_witness:
  "stuck_in_pending_workflows (REANAStatus_init None None None workflows_env) workflows_env = 1
   \<and> stuck_in_pending_workflows (REANAStatus_init None None None workflows_env)
        (workflows_env\<lparr>workflow_table :=
           map (\<lambda>w. w\<lparr>run_started_at := Some 0\<rparr>) (workflow_table workflows_env)\<rparr>) = 1"
  using stuck_in_pending_counts
    [of "REANAStatus_init None None None workflows_env" workflows_env "\<lambda>w. Some 0"]
  by (simp add: workflows_env_def idle_env_def example_workflows_def)

text \<open>
  C9. \<open>get_active\<close> is the number of interactive sessions whose status is none of stopped,
  deleted and failed, and \<open>get_status\<close> of the provider is the dictionary with the one key
  \<^verbatim>\<open>active\<close>, bound to that number.
\<close>

theorem get_active_counts:
  "get_active self e =
     int (length (filter (\<lambda>s. session_status s \<notin> {stopped, deleted, failed})
                    (interactive_session_table e)))
   \<and> InteractiveSessionsStatus_get_status self e = [(''active'', get_active self e)]"
  by (simp add: get_active_def InteractiveSessionsStatus_get_status_def Let_def sql_count_def
      sql_filter_def sql_notin_true)

theorem get_active_counts_witness:
  "InteractiveSessionsStatus_get_status (REANAStatus_init None None None sessions_env) sessions_env
     = [(''active'', 2)]"
  using get_active_counts [of "REANAStatus_init None None None sessions_env" sessions_env]
  by (simp add: sessions_env_def idle_env_def)

text \<open>
  C10. \<open>git_workflows\<close> counts exactly the workflow rows whose git-repo reference is present
  and not the empty string. A row whose reference is NULL is not counted: the comparison
  \<^verbatim>\<open>git_repo != ''\<close> is unknown on it, not true.
\<close>

theorem git_workflows_counts:
  "git_workflows self e =
     int (length (filter (\<lambda>w. \<exists>g. git_repo w = Some g \<and> g \<noteq> []) (workflow_table e)))
   \<and> (git_repo w = None \<longrightarrow>
        git_workflows self (e\<lparr>workflow_table := w # workflow_table e\<rparr>) = git_workflows self e)"
  by (simp add: git_workflows_def sql_count_def sql_filter_def sql_ne_true)

theorem git_workflows_counts_witness:
  "git_workflows (REANAStatus_init None None None workflows_env) workflows_env = 2
   \<and> git_workflows (REANAStatus_init None None None workflows_env)
       (workflows_env\<lparr>workflow_table :=
          \<lparr> status = finished, restart = None, git_repo = None, run_started_at = None,
            updated = None \<rparr> # workflow_table workflows_env\<rparr>) = 2"
  using git_workflows_counts [of "REANAStatus_init None None None workflows_env" workflows_env
      "\<lparr> status = finished, restart = None, git_repo = None, run_started_at = None,
         updated = None \<rparr>"]
  by (simp add: workflows_env_def idle_env_def example_workflows_def)

subsection \<open>Shared volume health\<close>

lemma df_output_lines:
  "splitlines (rstrip [CR, LF] df_output) =
     [''Filesystem Size Used Avail Use% Mounted'', ''/dev/sda1 100G 40G 60G 40% /data'']"
  by code_simp

lemma df_header_split:
  "split ''Filesystem Size Used Avail Use% Mounted'' =
     [''Filesystem'', ''Size'', ''Used'', ''Avail'', ''Use%'', ''Mounted'']"
  by code_simp

lemma df_row_split:
  "split ''/dev/sda1 100G 40G 60G 40% /data'' =
     [''/dev/sda1'', ''100G'', ''40G'', ''60G'', ''40%'', ''/data'']"
  by code_simp

lemma shared_volume_health_general:
  assumes "check_output e [''df'', ''-h'', SHARED_VOLUME_PATH e] = Inr out"
    and "splitlines (rstrip [CR, LF] out) = header # row # rest"
    and "index (split header) ''Used'' = Inr i"
    and "index (split header) ''Avail'' = Inr j"
    and "index (split header) ''Use%'' = Inr k"
    and "i < length (split row)" and "j < length (split row)" and "k < length (split row)"
  shows "shared_volume_health self e =
           Inr (split row ! i @ ''/'' @ split row ! j @ '' ('' @ split row ! k @ '')'')"
  using assms
  by (simp add: shared_volume_health_def execute_cmd_def bind_err_def getitem_def Let_def)

text \<open>
  C7. When \<^verbatim>\<open>df -h\<close> prints the header line
  \<^verbatim>\<open>Filesystem Size Used Avail Use% Mounted\<close> and the one data row
  \<^verbatim>\<open>/dev/sda1 100G 40G 60G 40% /data\<close>, \<open>shared_volume_health\<close> returns
  \<^verbatim>\<open>40G/60G (40%)\<close>. In general, when the output has a header line and a data row and the
  header names the columns \<^verbatim>\<open>Used\<close>, \<^verbatim>\<open>Avail\<close> and \<^verbatim>\<open>Use%\<close> at positions that the data row
  has, the result is the three fields of the data row at those positions, formatted as
  used, slash, available, and the percentage in parentheses.
\<close>

theorem shared_volume_health_columns:
  "(check_output e [''df'', ''-h'', SHARED_VOLUME_PATH e] = Inr df_output
      \<longrightarrow> shared_volume_health self e = Inr ''40G/60G (40%)'')
   \<and> (check_output e [''df'', ''-h'', SHARED_VOLUME_PATH e] = Inr out
      \<and> splitlines (rstrip [CR, LF] out) = header # row # rest
      \<and> index (split header) ''Used'' = Inr i
      \<and> index (split header) ''Avail'' = Inr j
      \<and> index (split header) ''Use%'' = Inr k
      \<and> i < length (split row) \<and> j < length (split row) \<and> k < length (split row)
      \<longrightarrow> shared_volume_health self e =
            Inr (split row ! i @ ''/'' @ split row ! j @ '' ('' @ split row ! k @ '')''))"
proof (intro conjI impI)
  assume "check_output e [''df'', ''-h'', SHARED_VOLUME_PATH e] = Inr df_output"
  then have "shared_volume_health self e =
      Inr ([''/dev/sda1'', ''100G'', ''40G'', ''60G'', ''40%'', ''/data''] ! 2 @ ''/''
           @ [''/dev/sda1'', ''100G'', ''40G'', ''60G'', ''40%'', ''/data''] ! 3 @ '' (''
           @ [''/dev/sda1'', ''100G'', ''40G'', ''60G'', ''40%'', ''/data''] ! 4 @ '')'')"
    using shared_volume_health_general [of e df_output
        "''Filesystem Size Used Avail Use% Mounted''" "''/dev/sda1 100G 40G 60G 40% /data''" "[]"
        2 3 4 self]
    by (simp add: df_output_lines df_header_split df_row_split)
  then show "shared_volume_health self e = Inr ''40G/60G (40%)''"
    by simp
next
  assume "check_output e [''df'', ''-h'', SHARED_VOLUME_PATH e] = Inr out
      \<and> splitlines (rstrip [CR, LF] out) = header # row # rest
      \<and> index (split header) ''Used'' = Inr i
      \<and> index (split header) ''Avail'' = Inr j
      \<and> index (split header) ''Use%'' = Inr k
      \<and> i < length (split row) \<and> j < length (split row) \<and> k < length (split row)"
  then show "shared_volume_health self e =
            Inr (split row ! i @ ''/'' @ split row ! j @ '' ('' @ split row ! k @ '')'')"
    using shared_volume_health_general by blast
qed

theorem shared_volume_health_columns_witness:
  "shared_volume_health (REANAStatus_init None None None df_env) df_env = Inr ''40G/60G (40%)''"
  using shared_volume_health_columns [of df_env "REANAStatus_init None None None df_env"]
  by (simp add: df_env_def idle_env_def)

subsection \<open>Node memory usage when the metrics API fails\<close>

lemma ApiException_unbound: "''ApiException'' \<notin> set module_globals"
  by (simp add: module_globals_def)

lemma get_memory_usage_try_fails:
  assumes "list_node e None = Inr nodes" and "record_capacity nodes [] = Inr result"
    and "try_node_metrics e result = Inl exc"
  shows "get_memory_usage self e = Inl (NameError ''ApiException'')"
  using assms
  by (simp add: get_memory_usage_def bind_err_def except_matches_def ApiException_unbound)

text \<open>
  C1. The claim is that an API exception of the metrics call is caught inside
  \<open>get_memory_usage\<close>, which then returns an empty mapping, so that
  \<open>get_friendly_memory_usage\<close> returns the empty string and nothing reaches the caller. The
  module never imports the name \<^verbatim>\<open>ApiException\<close> that its \<^verbatim>\<open>except\<close> clause reads: on the
  two-node cluster whose metrics call raises, \<open>get_memory_usage\<close>,
  \<open>get_friendly_memory_usage\<close> and \<open>get_status\<close> of the provider all raise
  \<^verbatim>\<open>NameError\<close>, while \<open>get_unschedulable_nodes\<close> still returns its list.
\<close>

theorem metrics_failure_raises_NameError:
  "get_memory_usage (REANAStatus_init None None None metrics_down_env) metrics_down_env
     = Inl (NameError ''ApiException'')
   \<and> get_friendly_memory_usage (REANAStatus_init None None None metrics_down_env) metrics_down_env
     = Inl (NameError ''ApiException'')
   \<and> NodesStatus_get_status (REANAStatus_init None None None metrics_down_env) metrics_down_env
     = Inl (NameError ''ApiException'')
   \<and> get_unschedulable_nodes (REANAStatus_init None None None metrics_down_env) metrics_down_env
     = Inr [''node-2'']"
proof -
  have m: "get_memory_usage (REANAStatus_init None None None metrics_down_env) metrics_down_env
     = Inl (NameError ''ApiException'')"
    by (rule get_memory_usage_try_fails
          [where nodes = "[\<lparr> node_name = ''node-1'', capacity = [(''memory'', ''16Gi'')] \<rparr>,
                          \<lparr> node_name = ''node-2'', capacity = [(''memory'', ''32Gi'')] \<rparr>]"
             and result = "[(''node-1'', [(''capacity'', ''16Gi'')]),
                            (''node-2'', [(''capacity'', ''32Gi'')])]"
             and exc = ApiException])
       (simp_all add: metrics_down_env_def idle_env_def try_node_metrics_def bind_err_def
          dict_getitem_def)
  have u: "get_unschedulable_nodes (REANAStatus_init None None None metrics_down_env)
             metrics_down_env = Inr [''node-2'']"
    by (simp add: get_unschedulable_nodes_def metrics_down_env_def idle_env_def bind_err_def)
  show ?thesis
    by (simp add: m u get_friendly_memory_usage_def NodesStatus_get_status_def bind_err_def)
qed

subsection \<open>Dictionaries built from distinct keys\<close>

lemma dict_set_fresh: "k \<notin> fst ` set d \<Longrightarrow> dict_set d k v = d @ [(k, v)]"
  by (induction d) auto

lemma fold_dict_set_distinct:
  "distinct (map fst (d @ kvs)) \<Longrightarrow> fold (\<lambda>(k, v) d. dict_set d k v) kvs d = d @ kvs"
proof (induction kvs arbitrary: d)
  case Nil
  then show ?case by simp
next
  case (Cons kv kvs)
  obtain k v where kv: "kv = (k, v)" by (cases kv)
  from Cons.prems kv have fresh: "k \<notin> fst ` set d" by auto
  from Cons.prems kv have "distinct (map fst ((d @ [(k, v)]) @ kvs))" by simp
  then have "fold (\<lambda>(k, v) d. dict_set d k v) kvs (d @ [(k, v)]) = (d @ [(k, v)]) @ kvs"
    by (rule Cons.IH)
  with fresh kv show ?case by (simp add: dict_set_fresh)
qed

lemma dict_of_distinct: "distinct (map fst kvs) \<Longrightarrow> dict_of kvs = kvs"
  using fold_dict_set_distinct [of "[]" kvs] by (simp add: dict_of_def)

lemma mapM_Inr: "(\<And>x. x \<in> set xs \<Longrightarrow> f x = Inr (g x)) \<Longrightarrow> mapM f xs = Inr (map g xs)"
  by (induction xs) simp_all

lemma lower_statuses:
  "map lower [''Running'', ''Pending'', ''Suceeded'', ''Failed'', ''Unknown'']
     = [''running'', ''pending'', ''suceeded'', ''failed'', ''unknown'']"
  by code_simp

lemma pods_keys_of_namespace:
  "map (pods_key ns) [''Running'', ''Pending'', ''Suceeded'', ''Failed'', ''Unknown''] =
     map (\<lambda>s. ns @ s)
       [''_running_pods'', ''_pending_pods'', ''_suceeded_pods'', ''_failed_pods'',
        ''_unknown_pods'']"
  using lower_statuses by (simp add: pods_key_def)

lemma suffix_cancel:
  assumes "x \<in> set [''_running_pods'', ''_pending_pods'', ''_suceeded_pods'', ''_failed_pods'', ''_unknown_pods'']"
    and "y \<in> set [''_running_pods'', ''_pending_pods'', ''_suceeded_pods'', ''_failed_pods'', ''_unknown_pods'']"
    and "a @ x = b @ y"
  shows "a = b \<and> x = y"
proof -
  from assms(3) have "rev x @ rev a = rev y @ rev b"
    by (metis rev_append)
  with assms(1,2) show ?thesis by auto
qed

lemma image_set_form:
  "{f ns ph | ns ph. ns \<in> A \<and> ph \<in> L} = (\<lambda>(ns, ph). f ns ph) ` (A \<times> L)"
  by auto

lemma image_lower_form:
  "(\<lambda>(ns, st). g ns (h st)) ` (A \<times> S) = (\<lambda>(ns, ph). g ns ph) ` (A \<times> h ` S)"
  by force

lemma pods_keys_distinct:
  "distinct (map (\<lambda>(ns, st). pods_key ns st)
      (List.product (remdups [a, b]) [''Running'', ''Pending'', ''Suceeded'', ''Failed'', ''Unknown'']))"
proof -
  let ?S = "[''_running_pods'', ''_pending_pods'', ''_suceeded_pods'', ''_failed_pods'', ''_unknown_pods'']"
  let ?P = "[''Running'', ''Pending'', ''Suceeded'', ''Failed'', ''Unknown'']"
  have one: "distinct (map (\<lambda>s. ns @ s) ?S)" for ns :: string
    by (simp add: distinct_map inj_on_def)
  have row: "map (\<lambda>(ns, st). pods_key ns st) (map (Pair ns) ?P) = map (\<lambda>s. ns @ s) ?S" for ns
    using pods_keys_of_namespace [of ns] by (simp add: comp_def)
  show ?thesis
  proof (cases "a = b")
    case True
    have "List.product (remdups [a, b]) ?P = map (Pair b) ?P" using True by simp
    then show ?thesis using one [of b] row [of b] by (simp only:)
  next
    case False
    have p: "List.product (remdups [a, b]) ?P = map (Pair a) ?P @ map (Pair b) ?P"
      using False by simp
    have disj: "set (map (\<lambda>s. a @ s) ?S) \<inter> set (map (\<lambda>s. b @ s) ?S) = {}"
    proof (rule ccontr)
      assume "set (map (\<lambda>s. a @ s) ?S) \<inter> set (map (\<lambda>s. b @ s) ?S) \<noteq> {}"
      then obtain x y where "x \<in> set ?S" "y \<in> set ?S" "a @ x = b @ y"
        by (auto simp only: set_map)
      then have "a = b" using suffix_cancel by blast
      with False show False by simp
    qed
    have "map (\<lambda>(ns, st). pods_key ns st) (List.product (remdups [a, b]) ?P)
          = map (\<lambda>s. a @ s) ?S @ map (\<lambda>s. b @ s) ?S"
      unfolding p map_append row ..
    then show ?thesis using one [of a] one [of b] disj by (simp only: distinct_append)
  qed
qed

lemma PodsStatus_init_fields:
  "namespaces (PodsStatus_init f u usr e) =
     remdups [REANA_INFRASTRUCTURE_KUBERNETES_NAMESPACE e, REANA_RUNTIME_KUBERNETES_NAMESPACE e]"
  "statuses (PodsStatus_init f u usr e) =
     [''Running'', ''Pending'', ''Suceeded'', ''Failed'', ''Unknown'']"
  by (simp_all add: PodsStatus_init_def REANAStatus_init_def REANAStatus.extend_def
      PodsStatus.fields_def)

lemma PodsStatus_get_status_value:
  assumes "\<And>ns st. list_namespaced_pod e ns (''status.phase='' @ st) = Inr (pods ns st)"
  shows "PodsStatus_get_status (PodsStatus_init f u usr e) e =
     Inr (map (\<lambda>(ns, st). (pods_key ns st, join ([LF] @ ''  '') ([] # pods ns st)))
            (List.product
               (remdups [REANA_INFRASTRUCTURE_KUBERNETES_NAMESPACE e,
                         REANA_RUNTIME_KUBERNETES_NAMESPACE e])
               [''Running'', ''Pending'', ''Suceeded'', ''Failed'', ''Unknown'']))"
proof -
  let ?self = "PodsStatus_init f u usr e"
  let ?g = "\<lambda>(ns, st). (pods_key ns st, join ([LF] @ ''  '') ([] # pods ns st))"
  let ?prod = "List.product (namespaces ?self) (statuses ?self)"
  have step: "(case x of (ns, st) \<Rightarrow>
           bind_err (get_friendly_pods_by_status ?self e st ns) (\<lambda>v. Inr (pods_key ns st, v)))
         = Inr (?g x)" for x
    using assms [of "fst x" "snd x"]
    by (cases x)
      (simp add: get_friendly_pods_by_status_def get_pods_by_status_def bind_err_def)
  have m: "mapM (\<lambda>(ns, st).
           bind_err (get_friendly_pods_by_status ?self e st ns) (\<lambda>v. Inr (pods_key ns st, v)))
          ?prod = Inr (map ?g ?prod)"
    by (rule mapM_Inr) (rule step)
  have "map fst (map ?g ?prod) = map (\<lambda>(ns, st). pods_key ns st) ?prod"
    by (simp add: comp_def case_prod_unfold)
  then have "distinct (map fst (map ?g ?prod))"
    using pods_keys_distinct by (simp only: PodsStatus_init_fields)
  then have d: "dict_of (map ?g ?prod) = map ?g ?prod"
    by (rule dict_of_distinct)
  have "PodsStatus_get_status ?self e = bind_err (Inr (map ?g ?prod)) (\<lambda>kvs. Inr (dict_of kvs))"
    by (simp only: PodsStatus_get_status_def m)
  also have "\<dots> = Inr (map ?g ?prod)"
    by (simp only: bind_err_def sum.case d)
  finally show ?thesis
    by (simp only: PodsStatus_init_fields)
qed

text \<open>
  C2, as amended. When every pod listing returns, \<open>get_status\<close> of \<open>PodsStatus\<close> returns a
  dictionary with one key \<^verbatim>\<open><namespace>_<phase-lowercased>_pods\<close> for every namespace in the
  set of the two namespace constants and every one of the five phases, each bound to the
  string that lists the pods of that namespace and phase. The keys are pairwise different,
  and there are ten of them when the two constants differ and five when they are equal.
\<close>

theorem PodsStatus_get_status_keys:
  "(\<forall>ns st. list_namespaced_pod e ns (''status.phase='' @ st) = Inr (pods ns st)) \<longrightarrow>
   (\<exists>d. PodsStatus_get_status (PodsStatus_init from_arg until_arg user_arg e) e = Inr d
      \<and> distinct (keys d)
      \<and> set (keys d) =
          {ns @ ''_'' @ ph @ ''_pods'' | ns ph.
             ns \<in> {REANA_INFRASTRUCTURE_KUBERNETES_NAMESPACE e,
                    REANA_RUNTIME_KUBERNETES_NAMESPACE e}
             \<and> ph \<in> {''running'', ''pending'', ''suceeded'', ''failed'', ''unknown''}}
      \<and> length d =
          (if REANA_INFRASTRUCTURE_KUBERNETES_NAMESPACE e = REANA_RUNTIME_KUBERNETES_NAMESPACE e
           then 5 else 10)
      \<and> (\<forall>ns \<in> {REANA_INFRASTRUCTURE_KUBERNETES_NAMESPACE e,
                  REANA_RUNTIME_KUBERNETES_NAMESPACE e}.
          \<forall>st \<in> {''Running'', ''Pending'', ''Suceeded'', ''Failed'', ''Unknown''}.
            dict_get d (ns @ ''_'' @ lower st @ ''_pods'')
              = Some (join ([LF] @ ''  '') ([] # pods ns st))))"
proof (intro impI)
  let ?a = "REANA_INFRASTRUCTURE_KUBERNETES_NAMESPACE e"
  let ?b = "REANA_RUNTIME_KUBERNETES_NAMESPACE e"
  let ?P = "[''Running'', ''Pending'', ''Suceeded'', ''Failed'', ''Unknown'']"
  let ?g = "\<lambda>(ns, st). (pods_key ns st, join ([LF] @ ''  '') ([] # pods ns st))"
  let ?d = "map ?g (List.product (remdups [?a, ?b]) ?P)"
  assume "\<forall>ns st. list_namespaced_pod e ns (''status.phase='' @ st) = Inr (pods ns st)"
  then have val: "PodsStatus_get_status (PodsStatus_init from_arg until_arg user_arg e) e = Inr ?d"
    using PodsStatus_get_status_value by blast
  have k: "keys ?d = map (\<lambda>(ns, st). pods_key ns st) (List.product (remdups [?a, ?b]) ?P)"
    by (simp add: keys_def comp_def case_prod_unfold)
  have dist: "distinct (keys ?d)"
    unfolding k by (rule pods_keys_distinct)
  have low: "lower ''Running'' = ''running''" "lower ''Pending'' = ''pending''"
    "lower ''Suceeded'' = ''suceeded''" "lower ''Failed'' = ''failed''"
    "lower ''Unknown'' = ''unknown''"
    using lower_statuses by simp_all
  have ks: "set (keys ?d) =
          {ns @ ''_'' @ ph @ ''_pods'' | ns ph.
             ns \<in> {?a, ?b} \<and> ph \<in> {''running'', ''pending'', ''suceeded'', ''failed'', ''unknown''}}"
  proof -
    have "set (keys ?d) = (\<lambda>(ns, st). pods_key ns st) ` ({?a, ?b} \<times> set ?P)"
      unfolding k by (simp only: set_map set_product set_remdups) simp
    also have "\<dots> = (\<lambda>(ns, ph). ns @ ''_'' @ ph @ ''_pods'') ` ({?a, ?b} \<times> lower ` set ?P)"
      unfolding pods_key_def by (rule image_lower_form)
    also have "lower ` set ?P = {''running'', ''pending'', ''suceeded'', ''failed'', ''unknown''}"
      by (simp add: low)
    finally show ?thesis
      by (simp only: image_set_form)
  qed
  have len: "length ?d = (if ?a = ?b then 5 else 10)"
    by simp
  have look: "dict_get ?d (ns @ ''_'' @ lower st @ ''_pods'')
              = Some (join ([LF] @ ''  '') ([] # pods ns st))"
    if "ns \<in> {?a, ?b}" and "st \<in> set ?P" for ns st
  proof -
    from that have "(ns, st) \<in> set (List.product (remdups [?a, ?b]) ?P)"
      by auto
    then have "?g (ns, st) \<in> set ?d"
      by (simp only: set_map) (rule imageI)
    then have "(pods_key ns st, join ([LF] @ ''  '') ([] # pods ns st)) \<in> set ?d"
      by simp
    with dist show ?thesis
      unfolding dict_get_def keys_def pods_key_def by (rule map_of_is_SomeI)
  qed
  show "\<exists>d. PodsStatus_get_status (PodsStatus_init from_arg until_arg user_arg e) e = Inr d
      \<and> distinct (keys d)
      \<and> set (keys d) =
          {ns @ ''_'' @ ph @ ''_pods'' | ns ph.
             ns \<in> {?a, ?b} \<and> ph \<in> {''running'', ''pending'', ''suceeded'', ''failed'', ''unknown''}}
      \<and> length d = (if ?a = ?b then 5 else 10)
      \<and> (\<forall>ns \<in> {?a, ?b}. \<forall>st \<in> {''Running'', ''Pending'', ''Suceeded'', ''Failed'', ''Unknown''}.
            dict_get d (ns @ ''_'' @ lower st @ ''_pods'')
              = Some (join ([LF] @ ''  '') ([] # pods ns st)))"
  proof (intro exI conjI ballI)
    show "PodsStatus_get_status (PodsStatus_init from_arg until_arg user_arg e) e = Inr ?d"
      by (rule val)
    show "distinct (keys ?d)" by (rule dist)
    show "set (keys ?d) = {ns @ ''_'' @ ph @ ''_pods'' | ns ph.
             ns \<in> {?a, ?b} \<and> ph \<in> {''running'', ''pending'', ''suceeded'', ''failed'', ''unknown''}}"
      by (rule ks)
    show "length ?d = (if ?a = ?b then 5 else 10)" by (rule len)
  next
    fix ns st
    assume "ns \<in> {?a, ?b}" and "st \<in> {''Running'', ''Pending'', ''Suceeded'', ''Failed'', ''Unknown''}"
    then show "dict_get ?d (ns @ ''_'' @ lower st @ ''_pods'')
              = Some (join ([LF] @ ''  '') ([] # pods ns st))"
      using look [of ns st] by simp
  qed
qed

theorem PodsStatus_get_status_keys_witness:
  "\<exists>d. PodsStatus_get_status (PodsStatus_init None None None pods_env) pods_env = Inr d
      \<and> distinct (keys d) \<and> length d = 10
      \<and> dict_get d ''reana_running_pods''
          = Some ([LF] @ ''  reana-server-0'' @ [LF] @ ''  reana-db-0'')
      \<and> dict_get d ''reana-runtime_suceeded_pods'' = Some []"
proof -
  let ?pods = "\<lambda>ns st. if ns = ''reana'' \<and> st = ''Running''
                        then [''reana-server-0'', ''reana-db-0''] else []"
  have listing: "\<forall>ns st. list_namespaced_pod pods_env ns (''status.phase='' @ st)
                    = Inr (?pods ns st)"
    by (simp add: pods_env_def idle_env_def)
  have ns: "REANA_INFRASTRUCTURE_KUBERNETES_NAMESPACE pods_env = ''reana''"
    "REANA_RUNTIME_KUBERNETES_NAMESPACE pods_env = ''reana-runtime''"
    by (simp_all add: pods_env_def idle_env_def)
  from PodsStatus_get_status_keys [of pods_env ?pods None None None] listing
  obtain d where d: "PodsStatus_get_status (PodsStatus_init None None None pods_env) pods_env = Inr d"
    and dist: "distinct (keys d)"
    and len: "length d = (if ''reana'' = ''reana-runtime'' then 5 else 10)"
    and look: "\<forall>ns \<in> {''reana'', ''reana-runtime''}.
          \<forall>st \<in> {''Running'', ''Pending'', ''Suceeded'', ''Failed'', ''Unknown''}.
            dict_get d (ns @ ''_'' @ lower st @ ''_pods'')
              = Some (join ([LF] @ ''  '') ([] # ?pods ns st))"
    unfolding ns by blast
  have low: "lower ''Running'' = ''running''" "lower ''Suceeded'' = ''suceeded''"
    using lower_statuses by simp_all
  from look have "dict_get d (''reana'' @ ''_'' @ lower ''Running'' @ ''_pods'')
              = Some (join ([LF] @ ''  '') ([] # ?pods ''reana'' ''Running''))"
    by blast
  then have r: "dict_get d ''reana_running_pods''
          = Some ([LF] @ ''  reana-server-0'' @ [LF] @ ''  reana-db-0'')"
    by (simp add: low)
  from look have "dict_get d (''reana-runtime'' @ ''_'' @ lower ''Suceeded'' @ ''_pods'')
              = Some (join ([LF] @ ''  '') ([] # ?pods ''reana-runtime'' ''Suceeded''))"
    by blast
  then have s: "dict_get d ''reana-runtime_suceeded_pods'' = Some []"
    by (simp add: low)
  from len have "length d = 10" by simp
  with d dist r s show ?thesis by blast
qed

text \<open>
  C2, as stated, fails when the infrastructure and the runtime namespace are the same
  namespace: the set of namespaces then has one element and the dictionary five keys.
\<close>

theorem PodsStatus_five_keys_counterexample:
  "PodsStatus_get_status (PodsStatus_init None None None same_namespace_env) same_namespace_env =
     Inr [(''default_running_pods'', []), (''default_pending_pods'', []),
          (''default_suceeded_pods'', []), (''default_failed_pods'', []),
          (''default_unknown_pods'', [])]"
  using PodsStatus_get_status_value [of same_namespace_env "\<lambda>ns st. []" None None None]
    pods_keys_of_namespace [of "''default''"]
  by (simp add: same_namespace_env_def idle_env_def)

subsection \<open>Jobs\<close>

lemma lower_backends:
  "lower ''Kubernetes'' = ''kubernetes''" "lower ''HTCondor'' = ''htcondor''"
  "lower ''Slurm'' = ''slurm''"
  by code_simp+

text \<open>
  C6. When the two pod listings of the runtime namespace return, \<open>get_status\<close> of
  \<open>JobsStatus\<close> returns a dictionary with exactly four keys: \<^verbatim>\<open>kubernetes\<close>, \<^verbatim>\<open>htcondor\<close> and
  \<^verbatim>\<open>slurm\<close>, each bound to the four counts of the jobs of that backend under the keys
  \<^verbatim>\<open>running\<close>, \<^verbatim>\<open>finished\<close>, \<^verbatim>\<open>failed\<close> and \<^verbatim>\<open>queued\<close>, and \<^verbatim>\<open>kubernetes_api\<close>, bound to
  \<^verbatim>\<open>running\<close> and \<^verbatim>\<open>pending\<close>, which are the lengths of the lists of job-pod names among
  the running and the pending pods.
\<close>

theorem JobsStatus_get_status_shape:
  "list_namespaced_pod e (REANA_RUNTIME_KUBERNETES_NAMESPACE e) ''status.phase=Running''
       = Inr running_pods
   \<and> list_namespaced_pod e (REANA_RUNTIME_KUBERNETES_NAMESPACE e) ''status.phase=Pending''
       = Inr pending_pods
   \<longrightarrow>
   JobsStatus_get_status (JobsStatus_init from_arg until_arg user_arg e) e =
     Inr (map (\<lambda>(key, backend).
            (key, map (\<lambda>(name, st).
                     (name, get_jobs_by_status_and_compute_backend
                              (JobsStatus_init from_arg until_arg user_arg e) e st (Some backend)))
                   [(''running'', job_running), (''finished'', job_finished),
                    (''failed'', job_failed), (''queued'', job_queued)]))
            [(''kubernetes'', ''Kubernetes''), (''htcondor'', ''HTCondor''), (''slurm'', ''Slurm'')]
          @ [(''kubernetes_api'',
              [(''running'', int (length (filter
                   (\<lambda>name. startswith name (REANA_COMPONENT_PREFIX e @ ''-run-job''))
                   running_pods))),
               (''pending'', int (length (filter
                   (\<lambda>name. startswith name (REANA_COMPONENT_PREFIX e @ ''-run-job''))
                   pending_pods)))])])"
  by (simp add: JobsStatus_get_status_def JobsStatus_init_def REANAStatus.extend_def
      JobsStatus.fields_def REANAStatus_init_def dict_of_def lower_backends
      get_k8s_jobs_by_status_def bind_err_def Let_def)

theorem JobsStatus_get_status_shape_witness:
  "JobsStatus_get_status (JobsStatus_init None None None jobs_env) jobs_env =
     Inr [(''kubernetes'', [(''running'', 1), (''finished'', 0), (''failed'', 1), (''queued'', 0)]),
          (''htcondor'', [(''running'', 0), (''finished'', 0), (''failed'', 0), (''queued'', 0)]),
          (''slurm'', [(''running'', 1), (''finished'', 0), (''failed'', 0), (''queued'', 0)]),
          (''kubernetes_api'', [(''running'', 2), (''pending'', 0)])]"
  using JobsStatus_get_status_shape [of jobs_env
      "[''reana-run-job-1'', ''reana-run-batch-7'', ''reana-run-job-2'']" "[]" None None None]
  by (simp add: jobs_env_def idle_env_def get_jobs_by_status_and_compute_backend_def
      sql_filter_def sql_eq_def sql_count_def startswith_def Let_def)

subsection \<open>Quota usage\<close>














subsection \<open>Constructor arguments\<close>

text \<open>
  C5. For every provider, \<open>get_status\<close> on an instance built with one time window equals
  \<open>get_status\<close> on an instance built with any other, over the same surroundings. For every
  provider but \<open>StorageStatus\<close> the same holds when the user argument changes as well; for
  \<open>StorageStatus\<close> two instances whose users give the same path return the same result.
\<close>

theorem get_status_ignores_window:
  "InteractiveSessionsStatus_get_status (REANAStatus_init from1 until1 user1 e) e
     = InteractiveSessionsStatus_get_status (REANAStatus_init from2 until2 user2 e) e
   \<and> SystemStatus_get_status (REANAStatus_init from1 until1 user1 e) e
     = SystemStatus_get_status (REANAStatus_init from2 until2 user2 e) e
   \<and> UsersStatus_get_status (REANAStatus_init from1 until1 user1 e) e
     = UsersStatus_get_status (REANAStatus_init from2 until2 user2 e) e
   \<and> WorkflowsStatus_get_status (REANAStatus_init from1 until1 user1 e) e
     = WorkflowsStatus_get_status (REANAStatus_init from2 until2 user2 e) e
   \<and> QuotaUsageStatus_get_status (REANAStatus_init from1 until1 user1 e) e
     = QuotaUsageStatus_get_status (REANAStatus_init from2 until2 user2 e) e
   \<and> NodesStatus_get_status (REANAStatus_init from1 until1 user1 e) e
     = NodesStatus_get_status (REANAStatus_init from2 until2 user2 e) e
   \<and> PodsStatus_get_status (PodsStatus_init from1 until1 user1 e) e
     = PodsStatus_get_status (PodsStatus_init from2 until2 user2 e) e
   \<and> JobsStatus_get_status (JobsStatus_init from1 until1 user1 e) e
     = JobsStatus_get_status (JobsStatus_init from2 until2 user2 e) e
   \<and> StorageStatus_get_status (REANAStatus_init from1 until1 user1 e) e
     = StorageStatus_get_status (REANAStatus_init from2 until2 user1 e) e
   \<and> (get_path (REANAStatus_init from1 until1 user1 e) e
        = get_path (REANAStatus_init from2 until2 user2 e) e
      \<longrightarrow> StorageStatus_get_status (REANAStatus_init from1 until1 user1 e) e
          = StorageStatus_get_status (REANAStatus_init from2 until2 user2 e) e)"
proof (intro conjI impI)
  show "InteractiveSessionsStatus_get_status (REANAStatus_init from1 until1 user1 e) e
     = InteractiveSessionsStatus_get_status (REANAStatus_init from2 until2 user2 e) e"
    by (simp add: InteractiveSessionsStatus_get_status_def get_active_def)
  show "SystemStatus_get_status (REANAStatus_init from1 until1 user1 e) e
     = SystemStatus_get_status (REANAStatus_init from2 until2 user2 e) e"
    by (simp add: SystemStatus_get_status_def uptime_def execute_cmd_def)
  show "UsersStatus_get_status (REANAStatus_init from1 until1 user1 e) e
     = UsersStatus_get_status (REANAStatus_init from2 until2 user2 e) e"
    by (simp add: UsersStatus_get_status_def active_web_users_def)
  show "WorkflowsStatus_get_status (REANAStatus_init from1 until1 user1 e) e
     = WorkflowsStatus_get_status (REANAStatus_init from2 until2 user2 e) e"
    by (simp add: WorkflowsStatus_get_status_def get_workflows_by_status_def
        stuck_in_running_workflows_def stuck_in_pending_workflows_def restarted_workflows_def
        git_workflows_def)
  show "QuotaUsageStatus_get_status (REANAStatus_init from1 until1 user1 e) e
     = QuotaUsageStatus_get_status (REANAStatus_init from2 until2 user2 e) e"
    by (simp add: QuotaUsageStatus_get_status_def get_top_five_def get_top_five_percentage_def
        get_top_five_users_def get_top_five_percentage_users_def format_user_data_def)
  show "NodesStatus_get_status (REANAStatus_init from1 until1 user1 e) e
     = NodesStatus_get_status (REANAStatus_init from2 until2 user2 e) e"
    by (simp add: NodesStatus_get_status_def get_unschedulable_nodes_def
        get_friendly_memory_usage_def get_memory_usage_def)
  show "PodsStatus_get_status (PodsStatus_init from1 until1 user1 e) e
     = PodsStatus_get_status (PodsStatus_init from2 until2 user2 e) e"
    by (simp add: PodsStatus_get_status_def PodsStatus_init_fields
        get_friendly_pods_by_status_def get_pods_by_status_def)
  show "JobsStatus_get_status (JobsStatus_init from1 until1 user1 e) e
     = JobsStatus_get_status (JobsStatus_init from2 until2 user2 e) e"
    by (simp add: JobsStatus_get_status_def JobsStatus_init_def REANAStatus.extend_def
        JobsStatus.fields_def REANAStatus_init_def get_jobs_by_status_and_compute_backend_def
        get_k8s_jobs_by_status_def)
  show "StorageStatus_get_status (REANAStatus_init from1 until1 user1 e) e
     = StorageStatus_get_status (REANAStatus_init from2 until2 user1 e) e"
    by (simp add: StorageStatus_get_status_def users_directory_size_def shared_volume_health_def
        execute_cmd_def get_path_def REANAStatus_init_def)
next
  assume "get_path (REANAStatus_init from1 until1 user1 e) e
        = get_path (REANAStatus_init from2 until2 user2 e) e"
  then show "StorageStatus_get_status (REANAStatus_init from1 until1 user1 e) e
          = StorageStatus_get_status (REANAStatus_init from2 until2 user2 e) e"
    by (simp add: StorageStatus_get_status_def users_directory_size_def shared_volume_health_def
        execute_cmd_def)
qed

theorem get_status_ignores_window_witness:
  "get_path (REANAStatus_init None None None storage_env) storage_env
     = get_path (REANAStatus_init (Some 5) (Some 9) (Some shared_users_dir) storage_env) storage_env
   \<and> StorageStatus_get_status (REANAStatus_init None None None storage_env) storage_env
     = StorageStatus_get_status
         (REANAStatus_init (Some 5) (Some 9) (Some shared_users_dir) storage_env) storage_env
   \<and> StorageStatus_get_status (REANAStatus_init None None None storage_env) storage_env
     = Inr [(''user_directory_size'', ''12G''), (''shared_volume_health'', ''40G/60G (40%)'')]
   \<and> StorageStatus_get_status (REANAStatus_init None None (Some jane) storage_env) storage_env
     = Inr [(''user_directory_size'', ''3G''), (''shared_volume_health'', ''40G/60G (40%)'')]"
proof -
  have p: "get_path (REANAStatus_init None None None storage_env) storage_env
     = get_path (REANAStatus_init (Some 5) (Some 9) (Some shared_users_dir) storage_env) storage_env"
    by (simp add: get_path_def REANAStatus_init_def storage_env_def idle_env_def
        shared_users_dir_def)
  with get_status_ignores_window
    [of None None None storage_env "Some 5" "Some 9" "Some shared_users_dir"]
  have s: "StorageStatus_get_status (REANAStatus_init None None None storage_env) storage_env
     = StorageStatus_get_status
         (REANAStatus_init (Some 5) (Some 9) (Some shared_users_dir) storage_env) storage_env"
    by blast
  have a: "StorageStatus_get_status (REANAStatus_init None None None storage_env) storage_env
     = Inr [(''user_directory_size'', ''12G''), (''shared_volume_health'', ''40G/60G (40%)'')]"
    by code_simp
  have b: "StorageStatus_get_status (REANAStatus_init None None (Some jane) storage_env) storage_env
     = Inr [(''user_directory_size'', ''3G''), (''shared_volume_health'', ''40G/60G (40%)'')]"
    by code_simp
  from p s a b show ?thesis by blast
qed

end
